theory Spec2Isabelle
  imports Complex_Main
begin

section \<open>go-envvar: binding environment variables to struct fields\<close>

text \<open>
  The development embeds \<^verbatim>\<open>ParseWithConfig\<close> and the functions it calls
  (\<^verbatim>\<open>parseStruct\<close>, \<^verbatim>\<open>parseField\<close>, \<^verbatim>\<open>push\<close>,
  \<^verbatim>\<open>foundDefaultTagError\<close>, \<^verbatim>\<open>cleverMaybeTextUnmarshaler\<close>,
  \<^verbatim>\<open>setUnmarshFieldVal\<close>, \<^verbatim>\<open>setFieldVal\<close>) of package
  \<^verbatim>\<open>envvar\<close>, in the variant that supports nested structs.

  The Go code works by reflection. A \<^verbatim>\<open>reflect.Type\<close> is a value of the datatype
  \<open>gotype\<close>, the data behind a \<^verbatim>\<open>reflect.Value\<close> is a \<open>goval\<close>, and every
  function that mutates a field through reflection returns the field's new value next to
  its error. What the model takes for granted:
  \<^item> struct types are finite trees (a struct type that contains a pointer to itself is
    not a \<open>gotype\<close>);
  \<^item> all fields are exported, as the documentation of \<^verbatim>\<open>Parse\<close> demands, so every
    field value can be read and set: \<^verbatim>\<open>CanInterface\<close> holds; fields are reached
    through the pointer handed to \<^verbatim>\<open>ParseWithConfig\<close>, so \<^verbatim>\<open>CanAddr\<close>
    holds;
  \<^item> no field has an interface type;
  \<^item> a pointer owns what it points to (two pointer fields do not share one struct);
  \<^item> \<^verbatim>\<open>int\<close> and \<^verbatim>\<open>uint\<close> have 64 bits (the repository's tests bind
    \<^verbatim>\<open>272309480983\<close> to an \<^verbatim>\<open>int\<close>);
  \<^item> the body of an \<^verbatim>\<open>UnmarshalText\<close> method is user code that returns: a
    function from the text and the receiver's value to an optional failure and the
    receiver's new value. A call that panics before the body runs is a panic of the
    model.
\<close>

subsection \<open>Panics\<close>

text \<open>
  A call returns a result or panics. A panic unwinds the whole walk: nothing is
  returned to the caller.
\<close>

datatype 'a outcome = Panic | Return 'a

subsection \<open>Errors\<close>

text \<open>
  The \<^verbatim>\<open>parent\<close> of an \<^verbatim>\<open>InvalidVariableError\<close>: the two errors of
  \<^verbatim>\<open>strconv\<close> (inside a \<^verbatim>\<open>*NumError\<close>), or any other error value, by its
  message.
\<close>

datatype cause = ErrSyntax | ErrRange | OtherError string

datatype error =
    UnsetVariableError string
  | InvalidFieldError string string
  | InvalidVariableError string string cause
  | InvalidArgumentError string
  | ErrorList "error list"

subsection \<open>Values and types\<close>

text \<open>
  Floating point numbers are not computed with: \<open>float64\<close> only names what
  \<^verbatim>\<open>strconv.ParseFloat\<close> returns.
\<close>

datatype float64 = Finite real | PosInf | NegInf | NaN

datatype goval =
    VString string
  | VInt int
  | VUint nat
  | VFloat float64
  | VBool bool
  | VStruct "goval list"
  | VPtr "goval option"
  | VOther string

text \<open>
  \<open>W\<close> is the width of \<^verbatim>\<open>int\<close> and \<^verbatim>\<open>uint\<close>; the others are the sized kinds.
\<close>

datatype width = W | W8 | W16 | W32 | W64

datatype kind =
    KString | KInt width | KUint width | KFloat32 | KFloat64 | KBool
  | KStruct | KPtr | KOther

text \<open>
  A type whose method set, or whose pointer's method set, has \<^verbatim>\<open>UnmarshalText\<close> is
  \<open>TUnmarshaler name recv m t\<close>: \<open>recv\<close> tells whether the method has a value or a
  pointer receiver, \<open>m\<close> is the method and \<open>t\<close> the type's shape. \<open>TDuration\<close> is
  \<^verbatim>\<open>time.Duration\<close>, of kind \<^verbatim>\<open>Int64\<close>. \<open>TOther name\<close> is a type of any
  other kind (slice, map, array, channel, function, complex number).
  A struct tag is the list of its key-value pairs.
\<close>

datatype receiver = ValueReceiver | PointerReceiver

type_synonym TextUnmarshaler = "string \<Rightarrow> goval \<Rightarrow> cause option \<times> goval"

type_synonym StructTag = "(string \<times> string) list"

datatype gotype =
    TString
  | TInt width
  | TDuration
  | TUint width
  | TFloat32
  | TFloat64
  | TBool
  | TStruct string "StructField list"
  | TPtr gotype
  | TOther string
  | TUnmarshaler string receiver TextUnmarshaler gotype
and StructField = StructField (Name: string) (Type: gotype) (Tag: StructTag)

fun Kind :: "gotype \<Rightarrow> kind" where
  "Kind TString = KString"
| "Kind (TInt w) = KInt w"
| "Kind TDuration = KInt W64"
| "Kind (TUint w) = KUint w"
| "Kind TFloat32 = KFloat32"
| "Kind TFloat64 = KFloat64"
| "Kind TBool = KBool"
| "Kind (TStruct n fs) = KStruct"
| "Kind (TPtr t) = KPtr"
| "Kind (TOther n) = KOther"
| "Kind (TUnmarshaler n r m t) = Kind t"

text \<open>\<^verbatim>\<open>Type.Elem()\<close> of a pointer type, and the fields of a struct type.\<close>

fun Elem :: "gotype \<Rightarrow> gotype" where
  "Elem (TPtr t) = t"
| "Elem (TUnmarshaler n r m t) = Elem t"
| "Elem t = t"

fun Fields :: "gotype \<Rightarrow> StructField list" where
  "Fields (TStruct n fs) = fs"
| "Fields (TUnmarshaler n r m t) = Fields t"
| "Fields t = []"

text \<open>\<^verbatim>\<open>Type.String()\<close>.\<close>

fun width_String :: "width \<Rightarrow> string" where
  "width_String W = []"
| "width_String W8 = ''8''"
| "width_String W16 = ''16''"
| "width_String W32 = ''32''"
| "width_String W64 = ''64''"

fun Type_String :: "gotype \<Rightarrow> string" where
  "Type_String TString = ''string''"
| "Type_String (TInt w) = ''int'' @ width_String w"
| "Type_String TDuration = ''time.Duration''"
| "Type_String (TUint w) = ''uint'' @ width_String w"
| "Type_String TFloat32 = ''float32''"
| "Type_String TFloat64 = ''float64''"
| "Type_String TBool = ''bool''"
| "Type_String (TStruct n fs) = n"
| "Type_String (TPtr t) = ''*'' @ Type_String t"
| "Type_String (TOther n) = n"
| "Type_String (TUnmarshaler n r m t) = n"

text \<open>\<^verbatim>\<open>StructTag.Lookup\<close> and \<^verbatim>\<open>StructTag.Get\<close>.\<close>

definition Tag_Lookup :: "StructTag \<Rightarrow> string \<Rightarrow> string \<times> bool" where
  "Tag_Lookup tag key = (case map_of tag key of Some v \<Rightarrow> (v, True) | None \<Rightarrow> ([], False))"

definition Tag_Get :: "StructTag \<Rightarrow> string \<Rightarrow> string" where
  "Tag_Get tag key = fst (Tag_Lookup tag key)"

text \<open>The zero value of a type: what \<^verbatim>\<open>reflect.New\<close> points to.\<close>

fun zero :: "gotype \<Rightarrow> goval"
  and zeros :: "StructField list \<Rightarrow> goval list" where
  "zero TString = VString []"
| "zero (TInt w) = VInt 0"
| "zero TDuration = VInt 0"
| "zero (TUint w) = VUint 0"
| "zero TFloat32 = VFloat (Finite 0)"
| "zero TFloat64 = VFloat (Finite 0)"
| "zero TBool = VBool False"
| "zero (TStruct n fs) = VStruct (zeros fs)"
| "zero (TPtr t) = VPtr None"
| "zero (TOther n) = VOther []"
| "zero (TUnmarshaler n r m t) = zero t"
| "zeros [] = []"
| "zeros (StructField name t tag # fs) = zero t # zeros fs"

text \<open>A value has a type: what Go's type system guarantees of a field and its value.\<close>

fun has_type :: "gotype \<Rightarrow> goval \<Rightarrow> bool"
  and have_types :: "StructField list \<Rightarrow> goval list \<Rightarrow> bool" where
  "has_type TString v = (case v of VString s \<Rightarrow> True | _ \<Rightarrow> False)"
| "has_type (TInt w) v = (case v of VInt n \<Rightarrow> True | _ \<Rightarrow> False)"
| "has_type TDuration v = (case v of VInt n \<Rightarrow> True | _ \<Rightarrow> False)"
| "has_type (TUint w) v = (case v of VUint n \<Rightarrow> True | _ \<Rightarrow> False)"
| "has_type TFloat32 v = (case v of VFloat x \<Rightarrow> True | _ \<Rightarrow> False)"
| "has_type TFloat64 v = (case v of VFloat x \<Rightarrow> True | _ \<Rightarrow> False)"
| "has_type TBool v = (case v of VBool b \<Rightarrow> True | _ \<Rightarrow> False)"
| "has_type (TStruct n fs) v = (case v of VStruct vs \<Rightarrow> have_types fs vs | _ \<Rightarrow> False)"
| "has_type (TPtr t) v =
     (case v of VPtr None \<Rightarrow> True | VPtr (Some p) \<Rightarrow> has_type t p | _ \<Rightarrow> False)"
| "has_type (TOther n) v = (case v of VOther s \<Rightarrow> True | _ \<Rightarrow> False)"
| "has_type (TUnmarshaler n r m t) v = has_type t v"
| "have_types [] vs = (vs = [])"
| "have_types (StructField name t tag # fs) vs =
     (case vs of [] \<Rightarrow> False | v # vs' \<Rightarrow> has_type t v \<and> have_types fs vs')"

subsection \<open>The standard library\<close>

text \<open>
  \<^verbatim>\<open>strconv.ParseUint(s, 10, 64)\<close>: the digits are read from the left; a byte that is
  not a decimal digit is a syntax error, a number above \<open>2\<^sup>6\<^sup>4 - 1\<close> a range error,
  whichever is met first. No sign is accepted.
\<close>

definition is_digit :: "char \<Rightarrow> bool" where
  "is_digit c = (48 \<le> (of_char c :: nat) \<and> (of_char c :: nat) \<le> 57)"

definition digit_val :: "char \<Rightarrow> nat" where
  "digit_val c = of_char c - 48"

definition maxUint64 :: nat where
  "maxUint64 = 18446744073709551615"

fun ParseUint_loop :: "nat \<Rightarrow> string \<Rightarrow> cause + nat" where
  "ParseUint_loop n [] = Inr n"
| "ParseUint_loop n (c # s) =
     (if \<not> is_digit c then Inl ErrSyntax
      else if n \<ge> maxUint64 div 10 + 1 then Inl ErrRange
      else if n * 10 + digit_val c > maxUint64 then Inl ErrRange
      else ParseUint_loop (n * 10 + digit_val c) s)"

definition ParseUint :: "string \<Rightarrow> cause + nat" where
  "ParseUint s = (if s = [] then Inl ErrSyntax else ParseUint_loop 0 s)"

text \<open>
  \<^verbatim>\<open>strconv.ParseInt(s, 10, 0)\<close> on a platform with 64-bit \<^verbatim>\<open>int\<close>: an optional
  sign, then \<^verbatim>\<open>ParseUint\<close>, then the check against \<open>2\<^sup>6\<^sup>3\<close>.
  \<^verbatim>\<open>strconv.Atoi\<close> returns what \<^verbatim>\<open>ParseInt\<close> returns (its fast path for short
  strings computes the same).
\<close>

definition ParseInt :: "string \<Rightarrow> cause + int" where
  "ParseInt s =
     (case s of
        [] \<Rightarrow> Inl ErrSyntax
      | c # rest \<Rightarrow>
          (let neg = (c = CHR ''-'');
               s' = (if c = CHR ''+'' \<or> c = CHR ''-'' then rest else s)
           in case ParseUint s' of
                Inl ErrRange \<Rightarrow> Inl ErrRange
              | Inl err \<Rightarrow> Inl err
              | Inr un \<Rightarrow>
                  if \<not> neg \<and> un \<ge> 2 ^ 63 then Inl ErrRange
                  else if neg \<and> un > 2 ^ 63 then Inl ErrRange
                  else Inr (if neg then - int un else int un)))"

definition Atoi :: "string \<Rightarrow> cause + int" where
  "Atoi s = ParseInt s"

definition ParseBool :: "string \<Rightarrow> cause + bool" where
  "ParseBool s =
     (if s \<in> set [''1'', ''t'', ''T'', ''TRUE'', ''true'', ''True''] then Inr True
      else if s \<in> set [''0'', ''f'', ''F'', ''FALSE'', ''false'', ''False''] then Inr False
      else Inl ErrSyntax)"

text \<open>
  What the model does not compute is a parameter: \<^verbatim>\<open>strconv.ParseFloat(s, 64)\<close>,
  \<^verbatim>\<open>time.ParseDuration\<close> (in nanoseconds), the conversion \<^verbatim>\<open>float32(x)\<close>, and
  the process environment behind \<^verbatim>\<open>syscall.Getenv\<close>.
\<close>

type_synonym GetenvFn = "string \<Rightarrow> string \<times> bool"

record stdlib =
  ParseFloat :: "string \<Rightarrow> cause + float64"
  ParseDuration :: "string \<Rightarrow> cause + int"
  float32 :: "float64 \<Rightarrow> float64"
  syscall_Getenv :: GetenvFn

text \<open>
  \<^verbatim>\<open>Value.SetInt\<close> and \<^verbatim>\<open>Value.SetUint\<close> of package \<^verbatim>\<open>reflect\<close> convert
  their 64-bit argument to the field's kind, as \<^verbatim>\<open>int8(x)\<close> does: the low bits are
  kept. \<^verbatim>\<open>Value.SetFloat\<close> converts to \<^verbatim>\<open>float32\<close> for that kind.
\<close>

fun bits :: "width \<Rightarrow> nat" where
  "bits W = 64"
| "bits W8 = 8"
| "bits W16 = 16"
| "bits W32 = 32"
| "bits W64 = 64"

definition SetInt :: "width \<Rightarrow> int \<Rightarrow> goval" where
  "SetInt w x = VInt (signed_take_bit (bits w - 1) x)"

definition SetUint :: "width \<Rightarrow> nat \<Rightarrow> goval" where
  "SetUint w x = VUint (take_bit (bits w) x)"

subsection \<open>The value converter\<close>

text \<open>
  \<^verbatim>\<open>maybeTextUnmarshaler\<close>: the type assertion
  \<^verbatim>\<open>val.Interface().(encoding.TextUnmarshaler)\<close> succeeds when the method set of the
  value's type has \<^verbatim>\<open>UnmarshalText\<close>. The method set of a type has its value
  receiver methods, the method set of a pointer to it has the pointer receiver methods
  too. What the assertion returns is called later, and the call may panic.

  A method called through a pointer works on what the pointer points to. Through a nil
  pointer, a method with a value receiver cannot be called: Go's wrapper for the pointer
  type dereferences the pointer and panics before the body runs. A method with a pointer
  receiver is handed the nil pointer as its receiver; the pointer stays nil.
\<close>

type_synonym UnmarshalText = "string \<Rightarrow> goval \<Rightarrow> (cause option \<times> goval) outcome"

definition through_pointer :: "receiver \<Rightarrow> TextUnmarshaler \<Rightarrow> UnmarshalText" where
  "through_pointer r m text v =
     (case v of
        VPtr (Some p) \<Rightarrow> (let (err, p') = m text p in Return (err, VPtr (Some p')))
      | _ \<Rightarrow>
          (case r of
             ValueReceiver \<Rightarrow> Panic
           | PointerReceiver \<Rightarrow> Return (fst (m text v), v)))"

fun maybeTextUnmarshaler :: "gotype \<Rightarrow> UnmarshalText option" where
  "maybeTextUnmarshaler (TUnmarshaler n ValueReceiver m t) =
     Some (\<lambda>text v. Return (m text v))"
| "maybeTextUnmarshaler (TUnmarshaler n PointerReceiver m t) = None"
| "maybeTextUnmarshaler (TPtr (TUnmarshaler n r m t)) = Some (through_pointer r m)"
| "maybeTextUnmarshaler t = None"

text \<open>
  \<^verbatim>\<open>cleverMaybeTextUnmarshaler\<close>: the field itself, then its address
  \<^verbatim>\<open>structField.Addr()\<close>, a pointer to the field, which is never nil.
\<close>

definition cleverMaybeTextUnmarshaler :: "gotype \<Rightarrow> UnmarshalText option" where
  "cleverMaybeTextUnmarshaler t =
     (case maybeTextUnmarshaler t of
        Some m \<Rightarrow> Some m
      | None \<Rightarrow>
          (case maybeTextUnmarshaler (TPtr t) of
             Some m \<Rightarrow>
               Some (\<lambda>text v. case m text (VPtr (Some v)) of
                                Panic \<Rightarrow> Panic
                              | Return (err, VPtr (Some v')) \<Rightarrow> Return (err, v')
                              | Return (err, _) \<Rightarrow> Return (err, v))
           | None \<Rightarrow> None))"

definition setUnmarshFieldVal ::
  "gotype \<Rightarrow> goval \<Rightarrow> string \<Rightarrow> string \<Rightarrow> (bool \<times> error option \<times> goval) outcome" where
  "setUnmarshFieldVal t structField name v =
     (case cleverMaybeTextUnmarshaler t of
        Some m \<Rightarrow>
          (case m v structField of
             Panic \<Rightarrow> Panic
           | Return (Some err, structField') \<Rightarrow>
               Return (True, Some (InvalidVariableError name v err), structField')
           | Return (None, structField') \<Rightarrow> Return (True, None, structField'))
      | None \<Rightarrow> Return (False, None, structField))"

fun is_Duration :: "gotype \<Rightarrow> bool" where
  "is_Duration TDuration = True"
| "is_Duration t = False"

text \<open>
  \<^verbatim>\<open>setFieldVal\<close>: the field's type and value, the variable's name and its raw
  value; the result is the error and the field's value afterwards. The built-in
  conversions do not panic on a field that can be set.
\<close>

definition setFieldVal ::
  "stdlib \<Rightarrow> gotype \<Rightarrow> goval \<Rightarrow> string \<Rightarrow> string \<Rightarrow> (error option \<times> goval) outcome" where
  "setFieldVal L t structField name v =
     (case setUnmarshFieldVal t structField name v of
        Panic \<Rightarrow> Panic
      | Return (True, err, structField') \<Rightarrow> Return (err, structField')
      | Return (False, _, _) \<Rightarrow>
          Return (case Kind t of
             KString \<Rightarrow> (None, VString v)
           | KInt w \<Rightarrow>
               if is_Duration t then
                 (case ParseDuration L v of
                    Inl err \<Rightarrow> (Some (InvalidVariableError name v err), structField)
                  | Inr dur \<Rightarrow> (None, SetInt w dur))
               else
                 (case Atoi v of
                    Inl err \<Rightarrow> (Some (InvalidVariableError name v err), structField)
                  | Inr vInt \<Rightarrow> (None, SetInt w vInt))
           | KUint w \<Rightarrow>
               (case ParseUint v of
                  Inl err \<Rightarrow> (Some (InvalidVariableError name v err), structField)
                | Inr vUint \<Rightarrow> (None, SetUint w vUint))
           | KFloat32 \<Rightarrow>
               (case ParseFloat L v of
                  Inl err \<Rightarrow> (Some (InvalidVariableError name v err), structField)
                | Inr vFloat \<Rightarrow> (None, VFloat (float32 L vFloat)))
           | KFloat64 \<Rightarrow>
               (case ParseFloat L v of
                  Inl err \<Rightarrow> (Some (InvalidVariableError name v err), structField)
                | Inr vFloat \<Rightarrow> (None, VFloat vFloat))
           | KBool \<Rightarrow>
               (case ParseBool v of
                  Inl err \<Rightarrow> (Some (InvalidVariableError name v err), structField)
                | Inr vBool \<Rightarrow> (None, VBool vBool))
           | _ \<Rightarrow>
               (Some (InvalidFieldError name
                  (''Unsupported struct field type: '' @ Type_String t)), structField)))"

subsection \<open>The struct walker\<close>

record Config =
  Getenv :: "GetenvFn option"
  Prefix :: string

record structStack =
  envPrefix :: string
  structType :: gotype
  structVal :: goval
  config :: Config

definition push :: "structStack \<Rightarrow> string \<Rightarrow> gotype \<Rightarrow> goval \<Rightarrow> structStack" where
  "push ss envPrefix' structType' structVal' =
     \<lparr>envPrefix = envPrefix ss @ envPrefix',
      structType = structType',
      structVal = structVal',
      config = config ss\<rparr>"

definition foundDefaultTagError :: "StructField \<Rightarrow> error option" where
  "foundDefaultTagError field =
     (if snd (Tag_Lookup (Tag field) ''default'') then
        Some (InvalidFieldError (Name field)
          ''default tag is not supported for nested structs.'')
      else None)"

text \<open>
  What \<^verbatim>\<open>reflect\<close> reads of a value: the fields of a struct
  (\<^verbatim>\<open>Value.Field(i)\<close>), whether a pointer is nil, and what it points to
  (\<^verbatim>\<open>Value.Elem()\<close>).
\<close>

fun Field_vals :: "goval \<Rightarrow> goval list" where
  "Field_vals (VStruct vs) = vs"
| "Field_vals v = []"

fun IsNil :: "goval \<Rightarrow> bool" where
  "IsNil (VPtr None) = True"
| "IsNil v = False"

fun Elem_val :: "goval \<Rightarrow> goval" where
  "Elem_val (VPtr (Some p)) = p"
| "Elem_val v = v"

text \<open>
  \<^verbatim>\<open>append(errors, suberrors.Errors...)\<close> for an \<^verbatim>\<open>ErrorList\<close>,
  \<^verbatim>\<open>append(errors, err)\<close> for any other error.
\<close>

fun append_error :: "error list \<Rightarrow> error option \<Rightarrow> error list" where
  "append_error errors None = errors"
| "append_error errors (Some (ErrorList suberrors)) = errors @ suberrors"
| "append_error errors (Some err) = errors @ [err]"

text \<open>The recursion of the walker follows the struct type, which is a finite tree.\<close>

lemma size_Elem: "2 * size (Elem t) < Suc (2 * size t)"
proof -
  have "size (Elem t) \<le> size t"
    by (induction t rule: Elem.induct) auto
  then show ?thesis by simp
qed

lemma size_Fields: "(\<Sum>f\<leftarrow>Fields t. 2 * size (Type f) + 4) < 2 * size t + 2"
proof (induction t rule: Fields.induct)
  case (1 n fs)
  have "(\<Sum>f\<leftarrow>fs. 2 * size (Type f) + 4) \<le> 2 * size_list size fs"
  proof (induction fs)
    case Nil
    show ?case by simp
  next
    case (Cons f fs)
    then show ?case by (cases f) simp
  qed
  then show ?case by simp
qed auto

text \<open>
  \<^verbatim>\<open>parseStruct\<close>, its loop over the fields, and \<^verbatim>\<open>parseField\<close>. The loop
  walks the fields of the struct type and the field values of the struct value side by
  side. Each function returns its error and the value it has written, or panics when a
  call below it panics. A
  \<^verbatim>\<open>structStack\<close> is built by \<^verbatim>\<open>ParseWithConfig\<close> and by \<^verbatim>\<open>push\<close>
  only, after \<^verbatim>\<open>ParseWithConfig\<close> has replaced a nil lookup function: the call
  \<^verbatim>\<open>ss.config.Getenv(derivedVarName)\<close> reads the function that is there, and what
  is proved of a lookup below assumes that there is one.
\<close>

function parseStruct :: "stdlib \<Rightarrow> structStack \<Rightarrow> (error option \<times> goval) outcome"
  and parseStruct_loop ::
    "stdlib \<Rightarrow> structStack \<Rightarrow> StructField list \<Rightarrow> goval list \<Rightarrow> error list
      \<Rightarrow> (error list \<times> goval list) outcome"
  and parseField ::
    "stdlib \<Rightarrow> structStack \<Rightarrow> StructField \<Rightarrow> goval \<Rightarrow> (error option \<times> goval) outcome" where
  "parseStruct L ss =
     (case parseStruct_loop L ss (Fields (structType ss)) (Field_vals (structVal ss)) [] of
        Panic \<Rightarrow> Panic
      | Return (errors, vals) \<Rightarrow>
          Return (if length errors > 0 then Some (ErrorList errors) else None, VStruct vals))"
| "parseStruct_loop L ss [] vals errors = Return (errors, vals)"
| "parseStruct_loop L ss (field # rest) [] errors = Return (errors, [])"
| "parseStruct_loop L ss (field # rest) (fieldVal # vals) errors =
     (case parseField L ss field fieldVal of
        Panic \<Rightarrow> Panic
      | Return (err, fieldVal') \<Rightarrow>
          (case parseStruct_loop L ss rest vals (append_error errors err) of
             Panic \<Rightarrow> Panic
           | Return (errors', vals') \<Rightarrow> Return (errors', fieldVal' # vals')))"
| "parseField L ss field fieldVal =
     (let customName = Tag_Get (Tag field) ''envvar'';
          varName = (if customName \<noteq> [] then customName else Name field)
      in
      if cleverMaybeTextUnmarshaler (Type field) = None
         \<and> Kind (Type field) = KStruct then
        (let newSS = push ss customName (Type field) fieldVal
         in case foundDefaultTagError field of
              Some err \<Rightarrow> Return (Some err, fieldVal)
            | None \<Rightarrow> parseStruct L newSS)
      else if cleverMaybeTextUnmarshaler (Type field) = None
         \<and> Kind (Type field) = KPtr \<and> Kind (Elem (Type field)) = KStruct then
        (let fieldVal1 =
               (if IsNil fieldVal then VPtr (Some (zero (Elem (Type field)))) else fieldVal)
         in case foundDefaultTagError field of
              Some err \<Rightarrow> Return (Some err, fieldVal1)
            | None \<Rightarrow>
                (let newSS = push ss customName (Elem (Type field)) (Elem_val fieldVal1)
                 in case parseStruct L newSS of
                      Panic \<Rightarrow> Panic
                    | Return (err, elem') \<Rightarrow> Return (err, VPtr (Some elem'))))
      else
        (let (defaultVal, foundDefault) = Tag_Lookup (Tag field) ''default'';
             derivedVarName = envPrefix ss @ varName;
             (envVal, foundEnv) = the (Getenv (config ss)) derivedVarName
         in if foundEnv then setFieldVal L (Type field) fieldVal derivedVarName envVal
            else if foundDefault then
              setFieldVal L (Type field) fieldVal derivedVarName defaultVal
            else Return (Some (UnsetVariableError derivedVarName), fieldVal)))"
  by pat_completeness auto

termination parseStruct
proof (relation "measure (\<lambda>x. case x of
          Inl (L, ss) \<Rightarrow> 2 * size (structType ss) + 3
        | Inr (Inl (L, ss, fs, vals, errors)) \<Rightarrow> (\<Sum>f\<leftarrow>fs. 2 * size (Type f) + 4) + 1
        | Inr (Inr (L, ss, field, fieldVal)) \<Rightarrow> 2 * size (Type field) + 4)", goal_cases)
  case 1
  show ?case by simp
next
  case (2 L ss)
  show ?case using size_Fields [of "structType ss"] by simp
next
  case 3
  then show ?case by simp
next
  case 4
  then show ?case by simp
next
  case 5
  then show ?case by (simp add: push_def)
next
  case 6
  then show ?case by (simp add: push_def size_Elem)
qed

declare parseStruct.simps [simp del] parseField.simps [simp del]

subsection \<open>The entry point\<close>

text \<open>
  The argument of \<^verbatim>\<open>ParseWithConfig\<close> is an \<^verbatim>\<open>interface{}\<close>: the nil interface,
  or a value with its type. \<^verbatim>\<open>reflect.TypeOf\<close> of the nil interface is nil, and the
  call \<^verbatim>\<open>typ.Kind()\<close> on it is a nil dereference: a run-time panic. Otherwise the
  call returns an error and leaves the argument as the second component says, or the
  walk panics.
\<close>

datatype interface = NilInterface | Interface gotype goval

definition ParseWithConfig ::
  "stdlib \<Rightarrow> interface \<Rightarrow> Config \<Rightarrow> (error option \<times> interface) outcome" where
  "ParseWithConfig L v config0 =
     (case v of
        NilInterface \<Rightarrow> Panic
      | Interface typ val \<Rightarrow>
          if Kind typ \<noteq> KPtr \<or> Kind (Elem typ) \<noteq> KStruct then
            Return (Some (InvalidArgumentError
              (''Error in Parse: type must be a pointer to a struct. Got: '' @ Type_String typ)), v)
          else if IsNil val then
            Return (Some (InvalidArgumentError ''Error in Parse: argument cannot be nil''), v)
          else
            (let config1 =
                   (if Getenv config0 = None
                    then config0\<lparr>Getenv := Some (syscall_Getenv L)\<rparr> else config0);
                 ss = \<lparr>envPrefix = Prefix config1, structType = Elem typ,
                       structVal = Elem_val val, config = config1\<rparr>
             in case parseStruct L ss of
                  Panic \<Rightarrow> Panic
                | Return (err, structVal') \<Rightarrow>
                    Return (err, Interface typ (VPtr (Some structVal')))))"

text \<open>\<^verbatim>\<open>Parse\<close> reads the process environment.\<close>

definition Parse :: "stdlib \<Rightarrow> interface \<Rightarrow> (error option \<times> interface) outcome" where
  "Parse L v = ParseWithConfig L v \<lparr>Getenv = Some (syscall_Getenv L), Prefix = []\<rparr>"

subsection \<open>Kinds of fields\<close>

text \<open>
  The two tests of \<^verbatim>\<open>parseField\<close> that send a field to the recursion: a struct,
  or a pointer to a struct, that no \<^verbatim>\<open>UnmarshalText\<close> method claims. Every other
  field is a leaf.
\<close>

definition nested_struct :: "gotype \<Rightarrow> bool" where
  "nested_struct t = (cleverMaybeTextUnmarshaler t = None \<and> Kind t = KStruct)"

definition nested_pointer :: "gotype \<Rightarrow> bool" where
  "nested_pointer t =
     (cleverMaybeTextUnmarshaler t = None \<and> Kind t = KPtr \<and> Kind (Elem t) = KStruct)"

definition leaf :: "gotype \<Rightarrow> bool" where
  "leaf t = (\<not> nested_struct t \<and> \<not> nested_pointer t)"

text \<open>The name a field is looked up by, before the prefix: its override, or its identifier.\<close>

definition varName :: "StructField \<Rightarrow> string" where
  "varName field =
     (if Tag_Get (Tag field) ''envvar'' \<noteq> [] then Tag_Get (Tag field) ''envvar''
      else Name field)"

subsection \<open>The error report of the specification\<close>





subsection \<open>Decimal numerals\<close>

text \<open>
  What a base-10 numeral is and what it denotes, to state the integer conversions
  against: a non-empty string of decimal digits, with its value; and the same after an
  optional sign.
\<close>

definition decimal :: "string \<Rightarrow> bool" where
  "decimal s = (s \<noteq> [] \<and> list_all is_digit s)"

definition decimal_value :: "string \<Rightarrow> nat" where
  "decimal_value s = foldl (\<lambda>n c. n * 10 + digit_val c) 0 s"

definition signed_decimal :: "string \<Rightarrow> int option" where
  "signed_decimal s =
     (case s of
        [] \<Rightarrow> None
      | c # rest \<Rightarrow>
          if c = CHR ''-'' then
            (if decimal rest then Some (- int (decimal_value rest)) else None)
          else if c = CHR ''+'' then
            (if decimal rest then Some (int (decimal_value rest)) else None)
          else if decimal s then Some (int (decimal_value s)) else None)"

subsection \<open>Examples from the tests\<close>

text \<open>
  The lookup function of the tests, \<^verbatim>\<open>customenv.getenv\<close>, over a list of variables;
  a standard library that parses no float and no duration, in an empty process
  environment; the structs \<^verbatim>\<open>Inner\<close> and \<^verbatim>\<open>Outer\<close> of
  \<^verbatim>\<open>TestParseNestedAlias\<close> and \<^verbatim>\<open>TestParseInnerError\<close>.
\<close>

definition customenv :: "(string \<times> string) list \<Rightarrow> GetenvFn" where
  "customenv vars key = (case map_of vars key of Some v \<Rightarrow> (v, True) | None \<Rightarrow> ([], False))"

definition lib0 :: stdlib where
  "lib0 = \<lparr>ParseFloat = (\<lambda>s. Inl ErrSyntax),
           ParseDuration = (\<lambda>s. Inl (OtherError ''time: invalid duration'')),
           float32 = (\<lambda>x. x),
           syscall_Getenv = customenv []\<rparr>"

definition Inner :: gotype where
  "Inner = TStruct ''envvar.Inner'' [StructField ''X'' TString [(''envvar'', ''X'')]]"

definition stack0 :: "(string \<times> string) list \<Rightarrow> gotype \<Rightarrow> goval \<Rightarrow> structStack" where
  "stack0 vars t v =
     \<lparr>envPrefix = [], structType = t, structVal = v,
      config = \<lparr>Getenv = Some (customenv vars), Prefix = []\<rparr>\<rparr>"





section \<open>Properties\<close>

subsection \<open>The three cases of parseField\<close>

lemma default_found: "snd (Tag_Lookup tag key) = (map_of tag key \<noteq> None)"
  by (simp add: Tag_Lookup_def split: option.splits)

lemma foundDefaultTagError_Some:
  "map_of (Tag field) ''default'' = Some d \<Longrightarrow>
   foundDefaultTagError field =
     Some (InvalidFieldError (Name field) ''default tag is not supported for nested structs.'')"
  by (simp add: foundDefaultTagError_def default_found)

lemma foundDefaultTagError_None:
  "map_of (Tag field) ''default'' = None \<Longrightarrow> foundDefaultTagError field = None"
  by (simp add: foundDefaultTagError_def default_found)

lemma parseField_struct:
  "nested_struct (Type field) \<Longrightarrow>
   parseField L ss field fieldVal =
     (case foundDefaultTagError field of
        Some err \<Rightarrow> Return (Some err, fieldVal)
      | None \<Rightarrow> parseStruct L (push ss (Tag_Get (Tag field) ''envvar'') (Type field) fieldVal))"
  by (simp add: parseField.simps nested_struct_def Let_def)

lemma parseField_pointer:
  "nested_pointer (Type field) \<Longrightarrow>
   parseField L ss field fieldVal =
     (let fieldVal1 =
            (if IsNil fieldVal then VPtr (Some (zero (Elem (Type field)))) else fieldVal)
      in case foundDefaultTagError field of
           Some err \<Rightarrow> Return (Some err, fieldVal1)
         | None \<Rightarrow>
             (case parseStruct L (push ss (Tag_Get (Tag field) ''envvar'')
                      (Elem (Type field)) (Elem_val fieldVal1)) of
                Panic \<Rightarrow> Panic
              | Return (err, elem') \<Rightarrow> Return (err, VPtr (Some elem'))))"
  by (simp add: parseField.simps nested_pointer_def Let_def split: option.splits)

lemma parseField_leaf:
  "leaf (Type field) \<Longrightarrow>
   parseField L ss field fieldVal =
     (let derivedVarName = envPrefix ss @ varName field;
          (envVal, foundEnv) = the (Getenv (config ss)) derivedVarName
      in if foundEnv then setFieldVal L (Type field) fieldVal derivedVarName envVal
         else (case map_of (Tag field) ''default'' of
                 Some defaultVal \<Rightarrow> setFieldVal L (Type field) fieldVal derivedVarName defaultVal
               | None \<Rightarrow> Return (Some (UnsetVariableError derivedVarName), fieldVal)))"
proof -
  assume "leaf (Type field)"
  then have c:
    "\<not> (cleverMaybeTextUnmarshaler (Type field) = None \<and> Kind (Type field) = KStruct)"
    "\<not> (cleverMaybeTextUnmarshaler (Type field) = None \<and> Kind (Type field) = KPtr
        \<and> Kind (Elem (Type field)) = KStruct)"
    by (simp_all add: leaf_def nested_struct_def nested_pointer_def)
  show ?thesis
    unfolding parseField.simps [of L ss field fieldVal] Let_def if_not_P [OF c(1)]
      if_not_P [OF c(2)] varName_def Tag_Lookup_def
    by (simp split: option.splits prod.splits)
qed

lemma has_type_zero: "has_type t (zero t)" and have_types_zeros: "have_types fs (zeros fs)"
  by (induction t and fs rule: zero_zeros.induct) simp_all

subsection \<open>Leaf fields\<close>

text \<open>
  Claim C1. For a leaf field the raw value is resolved in three steps. The key is the
  prefix of the struct followed by the field's override or, without one, its identifier.
  When the lookup function finds the key, its value is converted, also when it is the
  empty string, and the default tag is not looked at. When the key is not found and the
  field has a default tag, also an empty one, the default is converted. Otherwise the
  field's error is \<^verbatim>\<open>UnsetVariableError\<close> with the key, and the field keeps its value.
\<close>

theorem C1_leaf_resolution:
  assumes "leaf (Type field)" and "Getenv (config ss) = Some getenv"
  shows "parseField L ss field fieldVal =
     (let key = envPrefix ss @ varName field
      in case getenv key of
           (v, True) \<Rightarrow> setFieldVal L (Type field) fieldVal key v
         | (v, False) \<Rightarrow>
             (case map_of (Tag field) ''default'' of
                Some d \<Rightarrow> setFieldVal L (Type field) fieldVal key d
              | None \<Rightarrow> Return (Some (UnsetVariableError key), fieldVal)))"
  using assms(2) by (simp add: parseField_leaf [OF assms(1)] Let_def split: prod.splits)

theorem C1_leaf_resolution_witness:
  "leaf (Type (StructField ''Foo'' TString [(''default'', ''foo'')]))
   \<and> Getenv (config (stack0 [(''Foo'', [])] TString (VString ''old''))) = Some (customenv [(''Foo'', [])])
   \<and> parseField lib0 (stack0 [(''Foo'', [])] TString (VString ''old''))
        (StructField ''Foo'' TString [(''default'', ''foo'')]) (VString ''old'')
      = Return (None, VString [])
   \<and> parseField lib0 (stack0 [] TString (VString ''old''))
        (StructField ''Foo'' TString [(''default'', [])]) (VString ''old'')
      = Return (None, VString [])
   \<and> parseField lib0 (stack0 [] TString (VString ''old''))
        (StructField ''Foo'' TString [(''envvar'', ''BAR'')]) (VString ''old'')
      = Return (Some (UnsetVariableError ''BAR''), VString ''old'')"
proof -
  have l0: "leaf TString"
    by (simp add: leaf_def nested_struct_def nested_pointer_def)
  then have l: "leaf (Type (StructField n TString tag))" for n tag
    by simp
  have g: "Getenv (config (stack0 vars t v)) = Some (customenv vars)" for vars t v
    by (simp add: stack0_def)
  have s: "setFieldVal lib0 TString v k raw = Return (None, VString raw)" for v k raw
    by (simp add: setFieldVal_def setUnmarshFieldVal_def cleverMaybeTextUnmarshaler_def)
  note w = C1_leaf_resolution [where L = lib0 and fieldVal = "VString ''old''"]
  show ?thesis
    using w [where field = "StructField ''Foo'' TString [(''default'', ''foo'')]"
          and ss = "stack0 [(''Foo'', [])] TString (VString ''old'')", OF l g]
      w [where field = "StructField ''Foo'' TString [(''default'', [])]"
          and ss = "stack0 [] TString (VString ''old'')", OF l g]
      w [where field = "StructField ''Foo'' TString [(''envvar'', ''BAR'')]"
          and ss = "stack0 [] TString (VString ''old'')", OF l g]
    by (simp add: l0 g s stack0_def customenv_def varName_def Tag_Get_def Tag_Lookup_def)
qed

subsection \<open>Nested structs\<close>

lemma nested_exclusive: "nested_struct t \<Longrightarrow> \<not> nested_pointer t"
  by (simp add: nested_struct_def nested_pointer_def)

lemma nested_Inner: "nested_struct Inner" and nested_pointer_Inner: "nested_pointer (TPtr Inner)"
  by (simp_all add: nested_struct_def nested_pointer_def Inner_def
      cleverMaybeTextUnmarshaler_def)

lemma setFieldVal_string: "setFieldVal L TString v k raw = Return (None, VString raw)"
  by (simp add: setFieldVal_def setUnmarshFieldVal_def cleverMaybeTextUnmarshaler_def)

lemma leaf_TString: "leaf TString"
  by (simp add: leaf_def nested_struct_def nested_pointer_def)

text \<open>Binding an \<^verbatim>\<open>Inner\<close> under a prefix.\<close>

lemma parseStruct_Inner:
  "Getenv (config ss) = Some getenv \<Longrightarrow> structType ss = Inner \<Longrightarrow>
   structVal ss = VStruct [v] \<Longrightarrow>
   parseStruct L ss =
     (case getenv (envPrefix ss @ ''X'') of
        (raw, True) \<Rightarrow> Return (None, VStruct [VString raw])
      | (raw, False) \<Rightarrow>
          Return (Some (ErrorList [UnsetVariableError (envPrefix ss @ ''X'')]), VStruct [v]))"
proof -
  assume a: "Getenv (config ss) = Some getenv" "structType ss = Inner" "structVal ss = VStruct [v]"
  have f: "parseField L ss (StructField ''X'' TString [(''envvar'', ''X'')]) v =
     (case getenv (envPrefix ss @ ''X'') of
        (raw, True) \<Rightarrow> Return (None, VString raw)
      | (raw, False) \<Rightarrow> Return (Some (UnsetVariableError (envPrefix ss @ ''X'')), v))"
    using a(1)
    by (simp add: parseField_leaf leaf_TString setFieldVal_string varName_def Tag_Get_def
        Tag_Lookup_def Let_def split: prod.splits bool.splits)
  show ?thesis
    using a(2,3)
    by (simp add: parseStruct.simps [of L ss] Inner_def f split: prod.splits bool.splits)
qed

text \<open>
  Claim C6. A field that is a nested struct, by value or behind a pointer, and carries a
  default tag gets the error \<^verbatim>\<open>InvalidFieldError\<close> with the field's identifier and the
  message \<^verbatim>\<open>default tag is not supported for nested structs.\<close>; the struct behind it
  is not walked: the result is the same for every library, lookup function and prefix,
  the inner fields keep their values, and the loop records the error and goes on with
  the next field.
\<close>

theorem C6_default_on_nested_struct:
  assumes "nested_struct (Type field) \<or> nested_pointer (Type field)"
    and "map_of (Tag field) ''default'' = Some d"
  shows "parseField L ss field fieldVal =
      Return (Some (InvalidFieldError (Name field)
         ''default tag is not supported for nested structs.''),
       if nested_pointer (Type field) \<and> IsNil fieldVal
       then VPtr (Some (zero (Elem (Type field)))) else fieldVal)
    \<and> parseField L ss field fieldVal = parseField L' ss' field fieldVal
    \<and> parseStruct_loop L ss (field # rest) (fieldVal # vals) errors =
        (case parseStruct_loop L ss rest vals
                 (errors @ [InvalidFieldError (Name field)
                    ''default tag is not supported for nested structs.'']) of
           Panic \<Rightarrow> Panic
         | Return (errors', vals') \<Rightarrow>
             Return (errors',
               (if nested_pointer (Type field) \<and> IsNil fieldVal
                then VPtr (Some (zero (Elem (Type field)))) else fieldVal) # vals'))"
proof -
  note e = foundDefaultTagError_Some [OF assms(2)]
  have r: "parseField K st field fieldVal =
      Return (Some (InvalidFieldError (Name field)
         ''default tag is not supported for nested structs.''),
       if nested_pointer (Type field) \<and> IsNil fieldVal
       then VPtr (Some (zero (Elem (Type field)))) else fieldVal)" for K st
  proof (cases "nested_struct (Type field)")
    case True
    then show ?thesis
      by (simp add: parseField_struct e nested_exclusive)
  next
    case False
    with assms(1) have "nested_pointer (Type field)" by simp
    then show ?thesis
      by (simp add: parseField_pointer e Let_def)
  qed
  show ?thesis
    by (simp add: r)
qed

theorem C6_default_on_nested_struct_witness:
  "(nested_struct (Type (StructField ''A'' Inner [(''envvar'', ''A_''), (''default'', [])]))
      \<or> nested_pointer (Type (StructField ''A'' Inner [(''envvar'', ''A_''), (''default'', [])])))
   \<and> map_of (Tag (StructField ''A'' Inner [(''envvar'', ''A_''), (''default'', [])])) ''default''
       = Some []
   \<and> parseField lib0 (stack0 [(''A_X'', ''1'')] Inner (VStruct [VString []]))
        (StructField ''A'' Inner [(''envvar'', ''A_''), (''default'', [])]) (VStruct [VString []])
      = Return (Some (InvalidFieldError ''A''
           ''default tag is not supported for nested structs.''),
         VStruct [VString []])"
proof -
  have n: "nested_struct (Type (StructField ''A'' Inner [(''envvar'', ''A_''), (''default'', [])]))
      \<or> nested_pointer (Type (StructField ''A'' Inner [(''envvar'', ''A_''), (''default'', [])]))"
    by (simp add: nested_Inner)
  have d: "map_of (Tag (StructField ''A'' Inner [(''envvar'', ''A_''), (''default'', [])]))
      ''default'' = Some []"
    by simp
  show ?thesis
    using C6_default_on_nested_struct [OF n d, where L = lib0
        and ss = "stack0 [(''A_X'', ''1'')] Inner (VStruct [VString []])"
        and fieldVal = "VStruct [VString []]"] n d nested_exclusive [OF nested_Inner]
    by simp
qed

text \<open>
  Claim C8. A nil pointer to a nested struct without a default tag is first set to a new
  zero value of the struct type; the walk then binds that value, and the field points to
  the bound struct afterwards.
\<close>

theorem C8_nil_pointer_allocated:
  assumes "nested_pointer (Type field)"
    and "map_of (Tag field) ''default'' = None"
  shows "parseField L ss field (VPtr None) =
      (case parseStruct L (push ss (Tag_Get (Tag field) ''envvar'') (Elem (Type field))
               (zero (Elem (Type field)))) of
         Panic \<Rightarrow> Panic
       | Return (err, inner) \<Rightarrow> Return (err, VPtr (Some inner)))
    \<and> has_type (Elem (Type field)) (zero (Elem (Type field)))
    \<and> (\<forall>err. parseField L ss field (VPtr None) \<noteq> Return (err, VPtr None))"
  by (simp add: parseField_pointer [OF assms(1)] foundDefaultTagError_None [OF assms(2)]
      has_type_zero split: outcome.splits)

theorem C8_nil_pointer_allocated_witness:
  "nested_pointer (Type (StructField ''A'' (TPtr Inner) [(''envvar'', ''A_'')]))
   \<and> map_of (Tag (StructField ''A'' (TPtr Inner) [(''envvar'', ''A_'')])) ''default'' = None
   \<and> parseField lib0 (stack0 [(''A_X'', ''1'')] (TStruct ''Outer'' []) (VStruct []))
        (StructField ''A'' (TPtr Inner) [(''envvar'', ''A_'')]) (VPtr None)
      = Return (None, VPtr (Some (VStruct [VString ''1''])))"
proof -
  have n: "nested_pointer (Type (StructField ''A'' (TPtr Inner) [(''envvar'', ''A_'')]))"
    by (simp add: nested_pointer_Inner)
  have d: "map_of (Tag (StructField ''A'' (TPtr Inner) [(''envvar'', ''A_'')])) ''default'' = None"
    by simp
  have z: "zero Inner = VStruct [VString []]"
    by (simp add: Inner_def)
  have p: "parseStruct lib0
      (push (stack0 [(''A_X'', ''1'')] (TStruct ''Outer'' []) (VStruct [])) ''A_'' Inner
         (VStruct [VString []])) = Return (None, VStruct [VString ''1''])"
    by (simp add: parseStruct_Inner [where getenv = "customenv [(''A_X'', ''1'')]"
          and v = "VString []"] push_def stack0_def customenv_def)
  show ?thesis
    using C8_nil_pointer_allocated [OF n d, where L = lib0
        and ss = "stack0 [(''A_X'', ''1'')] (TStruct ''Outer'' []) (VStruct [])"] n d
    by (simp add: z p Tag_Get_def Tag_Lookup_def)
qed

text \<open>
  Claim C9. A nil pointer to a nested struct that carries a default tag is set to a new
  zero value before the tag is checked: the field's error is the usage error, and the
  field is not nil any more.
\<close>

theorem C9_nil_pointer_allocated_before_default_check:
  assumes "nested_pointer (Type field)"
    and "map_of (Tag field) ''default'' = Some d"
  shows "parseField L ss field (VPtr None) =
      Return (Some (InvalidFieldError (Name field)
         ''default tag is not supported for nested structs.''),
       VPtr (Some (zero (Elem (Type field)))))
    \<and> (\<forall>err. parseField L ss field (VPtr None) \<noteq> Return (err, VPtr None))"
  by (simp add: parseField_pointer [OF assms(1)] foundDefaultTagError_Some [OF assms(2)])

theorem C9_nil_pointer_allocated_before_default_check_witness:
  "nested_pointer (Type (StructField ''Aptr'' (TPtr Inner) [(''envvar'', ''A_''), (''default'', [])]))
   \<and> map_of (Tag (StructField ''Aptr'' (TPtr Inner) [(''envvar'', ''A_''), (''default'', [])]))
       ''default'' = Some []
   \<and> parseField lib0 (stack0 [] Inner (VStruct [VString []]))
        (StructField ''Aptr'' (TPtr Inner) [(''envvar'', ''A_''), (''default'', [])]) (VPtr None)
      = Return (Some (InvalidFieldError ''Aptr''
           ''default tag is not supported for nested structs.''),
         VPtr (Some (VStruct [VString []])))"
proof -
  have n: "nested_pointer
      (Type (StructField ''Aptr'' (TPtr Inner) [(''envvar'', ''A_''), (''default'', [])]))"
    by (simp add: nested_pointer_Inner)
  have d: "map_of (Tag (StructField ''Aptr'' (TPtr Inner) [(''envvar'', ''A_''), (''default'', [])]))
      ''default'' = Some []"
    by simp
  have z: "zero Inner = VStruct [VString []]"
    by (simp add: Inner_def)
  show ?thesis
    using C9_nil_pointer_allocated_before_default_check [OF n d, where L = lib0
        and ss = "stack0 [] Inner (VStruct [VString []])"] n d
    by (simp add: z)
qed

subsection \<open>Prefixes and name overrides\<close>

lemma Tag_Get_map_of:
  "Tag_Get tag key = (case map_of tag key of Some v \<Rightarrow> v | None \<Rightarrow> [])"
  by (simp add: Tag_Get_def Tag_Lookup_def split: option.splits)

text \<open>
  Claim C4. A nested struct field without a default tag is walked with the prefix of
  the enclosing struct followed by the field's override; an absent or empty override
  adds nothing. A leaf field below it is looked up by that prefix followed by its own
  override or identifier. The stack \<open>ss\<close> is any stack, so this holds at every depth.
  With the override \<^verbatim>\<open>A_\<close> outside and \<^verbatim>\<open>X\<close> inside, the key is \<^verbatim>\<open>A_X\<close>.
\<close>

theorem C4_prefix_accumulates:
  assumes "Getenv (config ss) = Some getenv"
    and "map_of (Tag field) ''default'' = None"
  shows "(nested_struct (Type field) \<longrightarrow>
        parseField L ss field fieldVal =
          parseStruct L (push ss (Tag_Get (Tag field) ''envvar'') (Type field) fieldVal))
    \<and> (nested_pointer (Type field) \<longrightarrow>
        parseField L ss field fieldVal =
          (let elem = (if IsNil fieldVal then zero (Elem (Type field)) else Elem_val fieldVal)
           in case parseStruct L
                     (push ss (Tag_Get (Tag field) ''envvar'') (Elem (Type field)) elem) of
                Panic \<Rightarrow> Panic
              | Return (err, elem') \<Rightarrow> Return (err, VPtr (Some elem'))))
    \<and> envPrefix (push ss (Tag_Get (Tag field) ''envvar'') t v) =
        envPrefix ss @ (case map_of (Tag field) ''envvar'' of Some p \<Rightarrow> p | None \<Rightarrow> [])
    \<and> (leaf (Type inner) \<longrightarrow>
        parseField L (push ss (Tag_Get (Tag field) ''envvar'') t v) inner w =
          (let key = envPrefix ss @ (case map_of (Tag field) ''envvar'' of Some p \<Rightarrow> p | None \<Rightarrow> [])
                     @ varName inner
           in case getenv key of
                (raw, True) \<Rightarrow> setFieldVal L (Type inner) w key raw
              | (raw, False) \<Rightarrow>
                  (case map_of (Tag inner) ''default'' of
                     Some d \<Rightarrow> setFieldVal L (Type inner) w key d
                   | None \<Rightarrow> Return (Some (UnsetVariableError key), w))))"
proof -
  note e = foundDefaultTagError_None [OF assms(2)]
  have 1: "nested_struct (Type field) \<longrightarrow>
        parseField L ss field fieldVal =
          parseStruct L (push ss (Tag_Get (Tag field) ''envvar'') (Type field) fieldVal)"
    by (simp add: parseField_struct e)
  have 2: "nested_pointer (Type field) \<longrightarrow>
        parseField L ss field fieldVal =
          (let elem = (if IsNil fieldVal then zero (Elem (Type field)) else Elem_val fieldVal)
           in case parseStruct L
                     (push ss (Tag_Get (Tag field) ''envvar'') (Elem (Type field)) elem) of
                Panic \<Rightarrow> Panic
              | Return (err, elem') \<Rightarrow> Return (err, VPtr (Some elem')))"
    by (simp add: parseField_pointer e Let_def)
  have 3: "envPrefix (push ss (Tag_Get (Tag field) ''envvar'') t v) =
        envPrefix ss @ (case map_of (Tag field) ''envvar'' of Some p \<Rightarrow> p | None \<Rightarrow> [])"
    by (simp add: push_def Tag_Get_map_of)
  have c: "Getenv (config (push ss (Tag_Get (Tag field) ''envvar'') t v)) = Some getenv"
    using assms(1) by (simp add: push_def)
  have 4: "leaf (Type inner) \<longrightarrow>
        parseField L (push ss (Tag_Get (Tag field) ''envvar'') t v) inner w =
          (let key = envPrefix ss @ (case map_of (Tag field) ''envvar'' of Some p \<Rightarrow> p | None \<Rightarrow> [])
                     @ varName inner
           in case getenv key of
                (raw, True) \<Rightarrow> setFieldVal L (Type inner) w key raw
              | (raw, False) \<Rightarrow>
                  (case map_of (Tag inner) ''default'' of
                     Some d \<Rightarrow> setFieldVal L (Type inner) w key d
                   | None \<Rightarrow> Return (Some (UnsetVariableError key), w)))"
    by (simp add: parseField_leaf c 3 Let_def split: prod.splits)
  from 1 2 3 4 show ?thesis by blast
qed

theorem C4_prefix_accumulates_witness:
  "Getenv (config (stack0 [(''A_X'', ''1''), (''X'', ''2'')] (TStruct ''Outer'' []) (VStruct [])))
     = Some (customenv [(''A_X'', ''1''), (''X'', ''2'')])
   \<and> map_of (Tag (StructField ''A'' Inner [(''envvar'', ''A_'')])) ''default'' = None
   \<and> nested_struct (Type (StructField ''A'' Inner [(''envvar'', ''A_'')]))
   \<and> parseField lib0 (stack0 [(''A_X'', ''1''), (''X'', ''2'')] (TStruct ''Outer'' []) (VStruct []))
        (StructField ''A'' Inner [(''envvar'', ''A_'')]) (VStruct [VString []])
      = Return (None, VStruct [VString ''1''])
   \<and> parseField lib0 (stack0 [] (TStruct ''Outer'' []) (VStruct []))
        (StructField ''A'' Inner [(''envvar'', ''A_'')]) (VStruct [VString []])
      = Return (Some (ErrorList [UnsetVariableError ''A_X'']), VStruct [VString []])"
proof -
  have g: "Getenv (config (stack0 vars t v)) = Some (customenv vars)" for vars t v
    by (simp add: stack0_def)
  have d: "map_of (Tag (StructField ''A'' Inner [(''envvar'', ''A_'')])) ''default'' = None"
    by simp
  have n: "nested_struct (Type (StructField ''A'' Inner [(''envvar'', ''A_'')]))"
    by (simp add: nested_Inner)
  have p: "parseStruct lib0 (push (stack0 vars (TStruct ''Outer'' []) (VStruct [])) ''A_'' Inner
         (VStruct [VString []])) =
      (case customenv vars ''A_X'' of
         (raw, True) \<Rightarrow> Return (None, VStruct [VString raw])
       | (raw, False) \<Rightarrow>
           Return (Some (ErrorList [UnsetVariableError ''A_X'']), VStruct [VString []]))"
    for vars
    by (simp add: parseStruct_Inner [where getenv = "customenv vars" and v = "VString []"]
        push_def stack0_def split: prod.splits bool.splits)
  note w = C4_prefix_accumulates [OF g d, where L = lib0 and fieldVal = "VStruct [VString []]",
      THEN conjunct1, rule_format, OF n]
  show ?thesis
    using w [of "[(''A_X'', ''1''), (''X'', ''2'')]"] w [of "[]"] g d n
    by (simp add: p Tag_Get_map_of customenv_def)
qed

text \<open>
  Claim C10. An override tag with the empty string as its value and no override tag at
  all give the same result on every field, leaf or nested: the lookup name is the
  field's identifier and the prefix handed down is unchanged.
\<close>

theorem C10_empty_override_is_no_override:
  assumes "map_of tag1 ''envvar'' = Some []"
    and "map_of tag2 ''envvar'' = None"
    and "map_of tag1 ''default'' = map_of tag2 ''default''"
  shows "parseField L ss (StructField name t tag1) v = parseField L ss (StructField name t tag2) v
    \<and> varName (StructField name t tag1) = name
    \<and> varName (StructField name t tag2) = name
    \<and> envPrefix (push ss (Tag_Get tag1 ''envvar'') t' v') = envPrefix ss
    \<and> envPrefix (push ss (Tag_Get tag2 ''envvar'') t' v') = envPrefix ss"
proof -
  have g: "Tag_Get tag1 ''envvar'' = []" "Tag_Get tag2 ''envvar'' = []"
    using assms(1,2) by (simp_all add: Tag_Get_map_of)
  have d: "Tag_Lookup tag1 ''default'' = Tag_Lookup tag2 ''default''"
    using assms(3) by (simp add: Tag_Lookup_def)
  have e: "foundDefaultTagError (StructField name t tag1) =
      foundDefaultTagError (StructField name t tag2)"
    by (simp add: foundDefaultTagError_def d)
  have "parseField L ss (StructField name t tag1) v = parseField L ss (StructField name t tag2) v"
    unfolding parseField.simps [of L ss "StructField name t tag1" v]
      parseField.simps [of L ss "StructField name t tag2" v] StructField.sel g d e
    by (rule refl)
  then show ?thesis
    by (simp add: varName_def g push_def)
qed

theorem C10_empty_override_is_no_override_witness:
  "map_of [(''envvar'', [])] ''envvar'' = Some ([] :: string)
   \<and> map_of ([] :: StructTag) ''envvar'' = None
   \<and> map_of [(''envvar'', ([] :: string))] ''default'' = map_of [] ''default''
   \<and> parseField lib0 (stack0 [(''Foo'', ''bar'')] TString (VString [])) 
        (StructField ''Foo'' TString [(''envvar'', [])]) (VString []) = Return (None, VString ''bar'')
   \<and> parseField lib0 (stack0 [(''Foo'', ''bar'')] TString (VString [])) 
        (StructField ''Foo'' TString []) (VString []) = Return (None, VString ''bar'')"
proof -
  have a: "map_of [(''envvar'', [])] ''envvar'' = Some ([] :: string)"
    "map_of ([] :: StructTag) ''envvar'' = None"
    "map_of [(''envvar'', ([] :: string))] ''default'' = map_of [] ''default''"
    by simp_all
  have r: "parseField lib0 (stack0 [(''Foo'', ''bar'')] TString (VString []))
        (StructField ''Foo'' TString []) (VString []) = Return (None, VString ''bar'')"
    by (simp add: parseField_leaf leaf_TString setFieldVal_string varName_def Tag_Get_def
        Tag_Lookup_def stack0_def customenv_def)
  show ?thesis
    using C10_empty_override_is_no_override [OF a, where L = lib0 and name = "''Foo''"
        and t = TString and v = "VString []"
        and ss = "stack0 [(''Foo'', ''bar'')] TString (VString [])"] a r
    by simp
qed

subsection \<open>Custom parsers\<close>












subsection \<open>The error report\<close>



























subsection \<open>Integer fields\<close>

lemma foldl_step_mono: "n \<le> foldl (\<lambda>n c. n * 10 + digit_val c) n s"
proof (induction s arbitrary: n)
  case Nil
  show ?case by simp
next
  case (Cons c s)
  have "n \<le> n * 10 + digit_val c" by simp
  also have "\<dots> \<le> foldl (\<lambda>n c. n * 10 + digit_val c) (n * 10 + digit_val c) s"
    by (rule Cons.IH)
  finally show ?case by simp
qed

lemma ParseUint_loop_ok:
  "list_all is_digit s \<Longrightarrow> foldl (\<lambda>n c. n * 10 + digit_val c) n s \<le> maxUint64 \<Longrightarrow>
   ParseUint_loop n s = Inr (foldl (\<lambda>n c. n * 10 + digit_val c) n s)"
proof (induction s arbitrary: n)
  case Nil
  show ?case by simp
next
  case (Cons c s)
  from Cons.prems(2) have le: "n * 10 + digit_val c \<le> maxUint64"
    using foldl_step_mono [of "n * 10 + digit_val c" s] by simp
  then have "\<not> maxUint64 div 10 + 1 \<le> n"
    by (simp add: maxUint64_def)
  with le Cons show ?case by simp
qed

lemma ParseUint_loop_range:
  "list_all is_digit s \<Longrightarrow> maxUint64 < foldl (\<lambda>n c. n * 10 + digit_val c) n s \<Longrightarrow>
   n \<le> maxUint64 \<Longrightarrow> ParseUint_loop n s = Inl ErrRange"
proof (induction s arbitrary: n)
  case Nil
  then show ?case by simp
next
  case (Cons c s)
  then show ?case by simp
qed

lemma ParseUint_loop_Inr:
  "ParseUint_loop n s = Inr m \<Longrightarrow> list_all is_digit s"
proof (induction s arbitrary: n)
  case Nil
  show ?case by simp
next
  case (Cons c s)
  then show ?case by (simp split: if_splits)
qed

lemma ParseUint_cases:
  "ParseUint s =
     (if decimal s then
        (if decimal_value s \<le> maxUint64 then Inr (decimal_value s) else Inl ErrRange)
      else Inl (case ParseUint s of Inl c \<Rightarrow> c | Inr m \<Rightarrow> ErrSyntax))"
proof (cases "decimal s")
  case True
  then show ?thesis
    using ParseUint_loop_ok [of s 0] ParseUint_loop_range [of s 0]
    by (simp add: ParseUint_def decimal_def decimal_value_def)
next
  case False
  then have "\<not> (\<exists>m. ParseUint s = Inr m)"
    using ParseUint_loop_Inr [of 0 s] by (auto simp add: ParseUint_def decimal_def)
  with False show ?thesis
    by (cases "ParseUint s") auto
qed


lemma ParseUint_fails: "\<not> decimal s \<Longrightarrow> \<exists>c. ParseUint s = Inl c"
  by (subst ParseUint_cases) simp

lemma not_decimal_sign: "\<not> decimal (CHR ''-'' # s)" "\<not> decimal (CHR ''+'' # s)"
  by (simp_all add: decimal_def is_digit_def)

lemma Atoi_cases:
  "Atoi s =
     (case signed_decimal s of
        Some n \<Rightarrow> if - (2 ^ 63) \<le> n \<and> n < 2 ^ 63 then Inr n else Inl ErrRange
      | None \<Rightarrow> Inl (case Atoi s of Inl c \<Rightarrow> c | Inr m \<Rightarrow> ErrSyntax))"
proof (cases s)
  case Nil
  then show ?thesis
    by (simp add: Atoi_def ParseInt_def signed_decimal_def)
next
  case (Cons c rest)
  let ?body = "if c = CHR ''+'' \<or> c = CHR ''-'' then rest else s"
  have sd: "signed_decimal s =
      (if decimal ?body
       then Some (if c = CHR ''-'' then - int (decimal_value ?body) else int (decimal_value ?body))
       else None)"
    using Cons by (auto simp add: signed_decimal_def)
  have at: "Atoi s =
      (case ParseUint ?body of
         Inl ErrRange \<Rightarrow> Inl ErrRange
       | Inl err \<Rightarrow> Inl err
       | Inr un \<Rightarrow>
           if c \<noteq> CHR ''-'' \<and> un \<ge> 2 ^ 63 then Inl ErrRange
           else if c = CHR ''-'' \<and> un > 2 ^ 63 then Inl ErrRange
           else Inr (if c = CHR ''-'' then - int un else int un))"
    using Cons by (simp add: Atoi_def ParseInt_def Let_def)
  show ?thesis
  proof (cases "decimal ?body")
    case False
    then obtain e where "ParseUint ?body = Inl e"
      using ParseUint_fails by blast
    with False show ?thesis
      by (cases e) (simp_all add: sd at)
  next
    case True
    then have pu: "ParseUint ?body =
        (if decimal_value ?body \<le> maxUint64 then Inr (decimal_value ?body) else Inl ErrRange)"
      by (subst ParseUint_cases) simp
    show ?thesis
    proof (cases "decimal_value ?body \<le> maxUint64")
      case le: True
      have "(int (decimal_value ?body) < 2 ^ 63) = (decimal_value ?body < 2 ^ 63)"
        by (metis of_nat_less_iff of_nat_numeral of_nat_power)
      moreover have "(int (decimal_value ?body) \<le> 2 ^ 63) = (decimal_value ?body \<le> 2 ^ 63)"
        by (metis of_nat_le_iff of_nat_numeral of_nat_power)
      ultimately show ?thesis
        using True le by (auto simp add: sd at pu)
    next
      case gt: False
      then have "2 ^ 63 < int (decimal_value ?body)"
        by (simp add: maxUint64_def)
      with True gt show ?thesis
        by (auto simp add: sd at pu)
    qed
  qed
qed


lemma no_unmarshaler_int:
  "setUnmarshFieldVal (TInt w) v key raw = Return (False, None, v)"
  "setUnmarshFieldVal (TUint w) v key raw = Return (False, None, v)"
  by (simp_all add: setUnmarshFieldVal_def cleverMaybeTextUnmarshaler_def)

text \<open>
  Claim C5, as the code has it. A signed integer field of any width is converted by
  \<^verbatim>\<open>strconv.Atoi\<close>, an unsigned one by \<^verbatim>\<open>strconv.ParseUint\<close> with 64 bits. The
  conversion of a signed field fails with \<^verbatim>\<open>InvalidVariableError\<close> when the raw value
  is not a decimal numeral with an optional sign, or when its value is outside the 64-bit
  range; that of an unsigned field fails when the raw value is not a plain decimal
  numeral (so with any sign, a negative number included) or its value is above
  \<open>2\<^sup>6\<^sup>4 - 1\<close>. The width of the field is not checked: a value within the 64-bit
  range is stored reduced to the field's width, unchanged when it fits, and the
  conversion succeeds. The counterexample stores \<^verbatim>\<open>300\<close> in an \<^verbatim>\<open>int8\<close> as 44
  and \<^verbatim>\<open>256\<close> in a \<^verbatim>\<open>uint8\<close> as 0, without an error.
\<close>

theorem C5_integer_conversion:
  "setFieldVal L (TInt w) v key raw =
     (case signed_decimal raw of
        Some n \<Rightarrow>
          if - (2 ^ 63) \<le> n \<and> n < 2 ^ 63
          then Return (None, VInt (signed_take_bit (bits w - 1) n))
          else Return (Some (InvalidVariableError key raw ErrRange), v)
      | None \<Rightarrow>
          Return (Some (InvalidVariableError key raw
             (case Atoi raw of Inl c \<Rightarrow> c | Inr m \<Rightarrow> ErrSyntax)), v))
   \<and> setFieldVal L (TUint w) v key raw =
     (if decimal raw then
        (if decimal_value raw \<le> maxUint64
         then Return (None, VUint (decimal_value raw mod 2 ^ bits w))
         else Return (Some (InvalidVariableError key raw ErrRange), v))
      else
        Return (Some (InvalidVariableError key raw
           (case ParseUint raw of Inl c \<Rightarrow> c | Inr m \<Rightarrow> ErrSyntax)), v))
   \<and> \<not> decimal (CHR ''-'' # s)
   \<and> - (2 ^ (bits w - 1)) \<le> signed_take_bit (bits w - 1) (n :: int)
   \<and> signed_take_bit (bits w - 1) n < 2 ^ (bits w - 1)
   \<and> (- (2 ^ (bits w - 1)) \<le> n \<and> n < 2 ^ (bits w - 1) \<longrightarrow>
        signed_take_bit (bits w - 1) n = n)
   \<and> ((m :: nat) < 2 ^ bits w \<longrightarrow> m mod 2 ^ bits w = m)"
proof -
  have 1: "setFieldVal L (TInt w) v key raw =
     (case signed_decimal raw of
        Some n \<Rightarrow>
          if - (2 ^ 63) \<le> n \<and> n < 2 ^ 63
          then Return (None, VInt (signed_take_bit (bits w - 1) n))
          else Return (Some (InvalidVariableError key raw ErrRange), v)
      | None \<Rightarrow>
          Return (Some (InvalidVariableError key raw
             (case Atoi raw of Inl c \<Rightarrow> c | Inr m \<Rightarrow> ErrSyntax)), v))"
    unfolding setFieldVal_def no_unmarshaler_int
    by (subst Atoi_cases) (simp add: SetInt_def split: option.splits)
  have 2: "setFieldVal L (TUint w) v key raw =
     (if decimal raw then
        (if decimal_value raw \<le> maxUint64
         then Return (None, VUint (decimal_value raw mod 2 ^ bits w))
         else Return (Some (InvalidVariableError key raw ErrRange), v))
      else
        Return (Some (InvalidVariableError key raw
           (case ParseUint raw of Inl c \<Rightarrow> c | Inr m \<Rightarrow> ErrSyntax)), v))"
    unfolding setFieldVal_def no_unmarshaler_int
    by (subst ParseUint_cases) (simp add: SetUint_def take_bit_eq_mod)
  have 3: "- (2 ^ (bits w - 1)) \<le> signed_take_bit (bits w - 1) (n :: int)"
    "signed_take_bit (bits w - 1) n < 2 ^ (bits w - 1)"
    by (simp_all add: signed_take_bit_int_greater_eq_minus_exp signed_take_bit_int_less_exp)
  have 4: "- (2 ^ (bits w - 1)) \<le> (n :: int) \<and> n < 2 ^ (bits w - 1) \<longrightarrow>
        signed_take_bit (bits w - 1) n = n"
    by (simp add: signed_take_bit_int_eq_self)
  from 1 2 3 4 show ?thesis
    by (simp add: not_decimal_sign)
qed

theorem C5_integer_conversion_counterexample:
  "setFieldVal lib0 (TInt W8) (VInt 0) ''INT8'' ''300'' = Return (None, VInt 44)
   \<and> setFieldVal lib0 (TUint W8) (VUint 0) ''UINT8'' ''256'' = Return (None, VUint 0)"
  by (simp add: setFieldVal_def setUnmarshFieldVal_def cleverMaybeTextUnmarshaler_def
      Atoi_def ParseInt_def ParseUint_def is_digit_def digit_val_def maxUint64_def
      SetInt_def SetUint_def)

theorem C5_integer_conversion_witness:
  "setFieldVal lib0 (TInt W8) (VInt 0) ''INT8'' ''-4'' = Return (None, VInt (- 4))
   \<and> setFieldVal lib0 (TInt W8) (VInt 0) ''INT8'' ''300'' = Return (None, VInt 44)
   \<and> setFieldVal lib0 (TInt W64) (VInt 0) ''INT64'' ''9223372036854775808''
       = Return (Some (InvalidVariableError ''INT64'' ''9223372036854775808'' ErrRange), VInt 0)
   \<and> setFieldVal lib0 (TInt W) (VInt 3) ''name'' ''abc''
       = Return (Some (InvalidVariableError ''name'' ''abc'' ErrSyntax), VInt 3)
   \<and> setFieldVal lib0 (TUint W) (VUint 3) ''name'' ''-3''
       = Return (Some (InvalidVariableError ''name'' ''-3'' ErrSyntax), VUint 3)
   \<and> setFieldVal lib0 (TUint W8) (VUint 0) ''UINT8'' ''256'' = Return (None, VUint 0)"
proof -
  note t = C5_integer_conversion [where L = lib0]
  note i = t [THEN conjunct1] and u = t [THEN conjunct2, THEN conjunct1]
  have d: "is_digit c = (48 \<le> (of_char c :: nat) \<and> (of_char c :: nat) \<le> 57)" for c
    by (simp add: is_digit_def)
  show ?thesis
    by (simp add: i u signed_decimal_def decimal_def decimal_value_def d digit_val_def
        maxUint64_def Atoi_def ParseInt_def ParseUint_def)
qed

subsection \<open>The argument of ParseWithConfig\<close>

text \<open>
  An argument with a type that is not a pointer to a struct, or that is a nil pointer,
  is rejected with one \<^verbatim>\<open>InvalidArgumentError\<close>, not an \<^verbatim>\<open>ErrorList\<close>, and is left
  as it was; an argument that is a pointer to a struct is handed to the walker, and a
  panic of the walker is a panic of the call.
\<close>

lemma ParseWithConfig_invalid_argument:
  assumes "\<not> (Kind typ = KPtr \<and> Kind (Elem typ) = KStruct \<and> \<not> IsNil val)"
  shows "\<exists>message. ParseWithConfig L (Interface typ val) config0 =
     Return (Some (InvalidArgumentError message), Interface typ val)"
  using assms by (auto simp add: ParseWithConfig_def)

lemma ParseWithConfig_valid_argument:
  assumes "Kind typ = KPtr" and "Kind (Elem typ) = KStruct" and "\<not> IsNil val"
  shows "ParseWithConfig L (Interface typ val) config0 =
     (let getenv = (case Getenv config0 of None \<Rightarrow> syscall_Getenv L | Some g \<Rightarrow> g)
      in case parseStruct L \<lparr>envPrefix = Prefix config0, structType = Elem typ,
                structVal = Elem_val val,
                config = \<lparr>Getenv = Some getenv, Prefix = Prefix config0\<rparr>\<rparr> of
           Panic \<Rightarrow> Panic
         | Return (err, structVal') \<Rightarrow>
             Return (err, Interface typ (VPtr (Some structVal'))))"
proof (cases config0)
  case (fields g p)
  with assms show ?thesis
    by (cases g) (simp_all add: ParseWithConfig_def Let_def)
qed

text \<open>
  Claim C7 fails on the code for the nil interface: \<^verbatim>\<open>ParseWithConfig(nil, config)\<close>
  does not return an \<^verbatim>\<open>InvalidArgumentError\<close>, it panics, and so does
  \<^verbatim>\<open>Parse(nil)\<close>. The test \<^verbatim>\<open>TestParseErrors\<close> of the repository wants
  \<^verbatim>\<open>Parse\<close> never to panic on an invalid argument.
\<close>

theorem C7_nil_interface_panics:
  "ParseWithConfig L NilInterface config0 = Panic \<and> Parse L NilInterface = Panic"
  by (simp add: ParseWithConfig_def Parse_def)

theorem C7_nil_interface_panics_witness:
  "ParseWithConfig lib0 NilInterface \<lparr>Getenv = None, Prefix = []\<rparr> = Panic
   \<and> Parse lib0 NilInterface = Panic"
  using C7_nil_interface_panics [of lib0 "\<lparr>Getenv = None, Prefix = []\<rparr>"] by simp

end
